theory Spec2Isabelle
  imports Complex_Main
begin

section \<open>Fitness tracker module: embedding of \<^verbatim>\<open>main.py\<close>\<close>

text \<open>
  Conventions of the embedding.
  \<^item> Python numbers (the \<^verbatim>\<open>int\<close> and \<^verbatim>\<open>float\<close> values of the sensor
    packages) are the type \<^typ>\<open>real\<close>: arithmetic is exact, binary rounding and
    overflow of \<^verbatim>\<open>float\<close> are outside the model. Division raises
    \<^verbatim>\<open>ZeroDivisionError\<close> on a zero divisor, as Python's \<^verbatim>\<open>/\<close> does.
    Where the last bit of a \<^verbatim>\<open>float\<close> decides a statement, the methods concerned are
    given a second time with every operation rounded to binary64 (the last subsection of
    the definitions).
  \<^item> An exception is a value \<open>Inl e\<close> of a sum type; Python's \<^verbatim>\<open>None\<close> is the
    \<open>None\<close> of an option type.
  \<^item> A Python \<^verbatim>\<open>str\<close> is a \<^typ>\<open>string\<close> holding its UTF-8 bytes; the Cyrillic
    literals of the source are written byte by byte.
  \<^item> \<^verbatim>\<open>print\<close> appends one line to the list of lines written to standard output.
\<close>

subsection \<open>Errors and division\<close>

datatype error = TypeError | AttributeError | ZeroDivisionError

definition py_div :: "real \<Rightarrow> real \<Rightarrow> error + real" where
  "py_div a b = (if b = 0 then Inl ZeroDivisionError else Inr (a / b))"

subsection \<open>The dataclasses\<close>

text \<open>
  \<^verbatim>\<open>Training\<close> and its three subclasses. The base class is a dataclass of its own
  and can be instantiated, so it is a constructor too.
\<close>

datatype training =
    Training (action: real) (duration: real) (weight: real)
  | Running (action: real) (duration: real) (weight: real)
  | SportsWalking (action: real) (duration: real) (weight: real) (height: real)
  | Swimming (action: real) (duration: real) (weight: real)
             (length_pool: real) (count_pool: real)

text \<open>
  What a metric field of \<^verbatim>\<open>InfoMessage\<close> can hold: a finite number (an \<^verbatim>\<open>int\<close> or
  a finite \<^verbatim>\<open>float\<close>, given by its exact value), or one of the \<^verbatim>\<open>float\<close> values
  \<^verbatim>\<open>-0.0\<close>, \<^verbatim>\<open>inf\<close>, \<^verbatim>\<open>-inf\<close> and \<^verbatim>\<open>nan\<close>. The dataclass checks nothing, so a
  message built directly can hold any of them; the arithmetic of the model only produces
  finite numbers.
\<close>

datatype number = Finite real | NegZero | PosInf | NegInf | NaN

text \<open>
  \<^verbatim>\<open>InfoMessage\<close>. The field \<open>calories\<close> holds whatever
  \<^verbatim>\<open>get_spent_calories\<close> returned, which is \<^verbatim>\<open>None\<close> for the base class.
\<close>

record InfoMessage =
  training_type :: string
  info_duration :: number
  info_distance :: number
  info_speed :: number
  info_calories :: "number option"

subsection \<open>Class attributes\<close>

text \<open>\<^verbatim>\<open>self.LEN_STEP\<close>: \<^verbatim>\<open>Swimming\<close> overrides the attribute of \<^verbatim>\<open>Training\<close>.\<close>

fun LEN_STEP :: "training \<Rightarrow> real" where
  "LEN_STEP (Swimming a d w l c) = 1.38"
| "LEN_STEP t = 0.65"

definition M_IN_KM :: real where "M_IN_KM = 1000"
definition MIN_IN_HOUR :: real where "MIN_IN_HOUR = 60"

definition CALORIES_MEAN_SPEED_MULTIPLIER :: real where "CALORIES_MEAN_SPEED_MULTIPLIER = 18"
definition CALORIES_MEAN_SPEED_SHIFT :: real where "CALORIES_MEAN_SPEED_SHIFT = 1.79"
definition Running_MIN :: real where "Running_MIN = 60"

definition WEIGHT_MULTIPLIER :: real where "WEIGHT_MULTIPLIER = 0.035"
definition AVG_MULTIPLIER :: real where "AVG_MULTIPLIER = 0.029"
definition CONVERSION_ms :: real where "CONVERSION_ms = 0.278"
definition CONVERSION_m :: real where "CONVERSION_m = 100"
definition SportsWalking_MIN :: real where "SportsWalking_MIN = 60"

definition OFFSET_AVG_SPEED :: real where "OFFSET_AVG_SPEED = 1.1"
definition SPEED_MULTIPLIER :: real where "SPEED_MULTIPLIER = 2"

subsection \<open>Methods of \<^verbatim>\<open>Training\<close>\<close>

definition Training_get_distance :: "training \<Rightarrow> real" where
  "Training_get_distance self = action self * LEN_STEP self / M_IN_KM"

definition Training_get_mean_speed :: "training \<Rightarrow> error + real" where
  "Training_get_mean_speed self = py_div (Training_get_distance self) (duration self)"

text \<open>
  The body of \<^verbatim>\<open>Training.get_spent_calories\<close> is \<^verbatim>\<open>pass\<close>: the call returns
  \<^verbatim>\<open>None\<close>. The \<^verbatim>\<open>try\<close> around the \<^verbatim>\<open>def\<close> guards the definition of the
  method, not its calls, so its \<^verbatim>\<open>except NotImplementedError\<close> branch never runs.
\<close>

definition Training_get_spent_calories :: "training \<Rightarrow> error + real option" where
  "Training_get_spent_calories self = Inr None"

subsection \<open>Methods of \<^verbatim>\<open>Running\<close>\<close>

text \<open>
  The class attributes \<^verbatim>\<open>CALORIES_MEAN_SPEED_MULTIPLIER\<close>,
  \<^verbatim>\<open>CALORIES_MEAN_SPEED_SHIFT\<close> and \<^verbatim>\<open>MIN\<close> exist on a \<^verbatim>\<open>Running\<close> object only;
  on any other \<^verbatim>\<open>self\<close> the first lookup, which comes before everything else, raises
  \<^verbatim>\<open>AttributeError\<close>.
\<close>

fun Running_get_spent_calories :: "training \<Rightarrow> error + real option" where
  "Running_get_spent_calories (Running a d w) =
     (case Training_get_mean_speed (Running a d w) of
        Inl e \<Rightarrow> Inl e
      | Inr v \<Rightarrow>
          Inr (Some ((CALORIES_MEAN_SPEED_MULTIPLIER * v + CALORIES_MEAN_SPEED_SHIFT)
                     * w / M_IN_KM
                     * (d * Running_MIN))))"
| "Running_get_spent_calories self = Inl AttributeError"

subsection \<open>Methods of \<^verbatim>\<open>SportsWalking\<close>\<close>

text \<open>
  The class attributes \<^verbatim>\<open>WEIGHT_MULTIPLIER\<close>, \<^verbatim>\<open>AVG_MULTIPLIER\<close>,
  \<^verbatim>\<open>CONVERSION_ms\<close>, \<^verbatim>\<open>CONVERSION_m\<close> and \<^verbatim>\<open>MIN\<close>, and the field
  \<^verbatim>\<open>height\<close>, exist on a \<^verbatim>\<open>SportsWalking\<close> object only; on any other \<^verbatim>\<open>self\<close>
  the first lookup, \<^verbatim>\<open>self.WEIGHT_MULTIPLIER\<close>, which comes before everything else,
  raises \<^verbatim>\<open>AttributeError\<close>.
\<close>

fun SportsWalking_get_spent_calories :: "training \<Rightarrow> error + real option" where
  "SportsWalking_get_spent_calories (SportsWalking a d w h) =
     (case Training_get_mean_speed (SportsWalking a d w h) of
        Inl e \<Rightarrow> Inl e
      | Inr v \<Rightarrow>
          (case py_div ((v * CONVERSION_ms)\<^sup>2) (h / CONVERSION_m) of
             Inl e \<Rightarrow> Inl e
           | Inr q \<Rightarrow>
               Inr (Some ((WEIGHT_MULTIPLIER * w + q * AVG_MULTIPLIER * w)
                          * (d * SportsWalking_MIN)))))"
| "SportsWalking_get_spent_calories self = Inl AttributeError"

subsection \<open>Methods of \<^verbatim>\<open>Swimming\<close>\<close>

text \<open>\<^verbatim>\<open>self.length_pool\<close> and \<^verbatim>\<open>self.count_pool\<close> exist on a \<^verbatim>\<open>Swimming\<close> object only.\<close>

fun get_pool :: "training \<Rightarrow> error + real \<times> real" where
  "get_pool (Swimming a d w l c) = Inr (l, c)"
| "get_pool t = Inl AttributeError"

definition Swimming_get_distance :: "training \<Rightarrow> real" where
  "Swimming_get_distance self = action self * LEN_STEP self / M_IN_KM"

definition Swimming_get_mean_speed :: "training \<Rightarrow> error + real" where
  "Swimming_get_mean_speed self =
     (case get_pool self of
        Inl e \<Rightarrow> Inl e
      | Inr (l, c) \<Rightarrow> py_div (l * c / M_IN_KM) (duration self))"

definition Swimming_get_spent_calories :: "training \<Rightarrow> error + real option" where
  "Swimming_get_spent_calories self =
     (case Swimming_get_mean_speed self of
        Inl e \<Rightarrow> Inl e
      | Inr v \<Rightarrow>
          Inr (Some ((v + OFFSET_AVG_SPEED) * SPEED_MULTIPLIER * weight self * duration self)))"

subsection \<open>Method resolution\<close>

text \<open>
  \<^verbatim>\<open>self.get_distance()\<close>, \<^verbatim>\<open>self.get_mean_speed()\<close> and
  \<^verbatim>\<open>self.get_spent_calories()\<close> run the method of the object's class, or the inherited
  one where the class does not override it.
\<close>

fun get_distance :: "training \<Rightarrow> real" where
  "get_distance (Swimming a d w l c) = Swimming_get_distance (Swimming a d w l c)"
| "get_distance t = Training_get_distance t"

fun get_mean_speed :: "training \<Rightarrow> error + real" where
  "get_mean_speed (Swimming a d w l c) = Swimming_get_mean_speed (Swimming a d w l c)"
| "get_mean_speed t = Training_get_mean_speed t"

fun get_spent_calories :: "training \<Rightarrow> error + real option" where
  "get_spent_calories (Training a d w) = Training_get_spent_calories (Training a d w)"
| "get_spent_calories (Running a d w) = Running_get_spent_calories (Running a d w)"
| "get_spent_calories (SportsWalking a d w h) =
     SportsWalking_get_spent_calories (SportsWalking a d w h)"
| "get_spent_calories (Swimming a d w l c) =
     Swimming_get_spent_calories (Swimming a d w l c)"

text \<open>\<^verbatim>\<open>type(self).__name__\<close>.\<close>

fun class_name :: "training \<Rightarrow> string" where
  "class_name (Training a d w) = ''Training''"
| "class_name (Running a d w) = ''Running''"
| "class_name (SportsWalking a d w h) = ''SportsWalking''"
| "class_name (Swimming a d w l c) = ''Swimming''"

subsection \<open>\<^verbatim>\<open>Training.show_training_info\<close>\<close>

text \<open>
  The argument is whatever the caller passes as \<^verbatim>\<open>self\<close>: an object, or
  \<^verbatim>\<open>None\<close>. On \<^verbatim>\<open>None\<close> the first argument \<^verbatim>\<open>type(self).__name__\<close> still
  evaluates, and the second, \<^verbatim>\<open>self.duration\<close>, raises \<^verbatim>\<open>AttributeError\<close>.
  The arguments are evaluated from left to right.
\<close>

fun show_training_info :: "training option \<Rightarrow> error + InfoMessage" where
  "show_training_info None = Inl AttributeError"
| "show_training_info (Some self) =
     (let type_name = class_name self;
          duration_value = duration self;
          distance_value = get_distance self
      in case get_mean_speed self of
           Inl e \<Rightarrow> Inl e
         | Inr v \<Rightarrow>
             (case get_spent_calories self of
                Inl e \<Rightarrow> Inl e
              | Inr c \<Rightarrow>
                  Inr \<lparr>training_type = type_name, info_duration = Finite duration_value,
                       info_distance = Finite distance_value,
                       info_speed = Finite v, info_calories = map_option Finite c\<rparr>))"

subsection \<open>The format specification \<^verbatim>\<open>.3f\<close>\<close>

text \<open>
  Fixed-point rendering with three fractional digits: a minus sign for a negative
  number, the integer part in decimal, a point, three digits. The value is rounded to
  the nearest multiple of \<open>1/1000\<close>, an exact tie to the even one.
\<close>

definition round_half_even :: "real \<Rightarrow> int" where
  "round_half_even x =
     (let f = \<lfloor>x\<rfloor>; r = x - of_int f
      in if r < 1 / 2 then f
         else if 1 / 2 < r then f + 1
         else if even f then f else f + 1)"

definition digit :: "nat \<Rightarrow> char" where
  "digit n = ''0123456789'' ! n"

fun digits :: "nat \<Rightarrow> string" where
  "digits n = (if n < 10 then [digit n] else digits (n div 10) @ [digit (n mod 10)])"

declare digits.simps [simp del]

definition format_3f :: "real \<Rightarrow> string" where
  "format_3f x =
     (let n = nat (round_half_even (\<bar>x\<bar> * 1000))
      in (if x < 0 then ''-'' else [])
         @ digits (n div 1000) @ ''.''
         @ [digit (n div 100 mod 10), digit (n div 10 mod 10), digit (n mod 10)])"

text \<open>
  \<^verbatim>\<open>.3f\<close> on any value of a metric field. A finite \<^verbatim>\<open>float\<close> is rendered from its
  exact value; \<^verbatim>\<open>-0.0\<close> keeps its sign; \<^verbatim>\<open>inf\<close>, \<^verbatim>\<open>-inf\<close> and \<^verbatim>\<open>nan\<close> are
  rendered by name, with no digits. (An \<^verbatim>\<open>int\<close> is converted to \<^verbatim>\<open>float\<close> first, which
  is exact when a \<^verbatim>\<open>float\<close> holds the \<^verbatim>\<open>int\<close>; the rounding and the
  \<^verbatim>\<open>OverflowError\<close> of larger ones are outside the model.)
\<close>

fun format_spec_3f :: "number \<Rightarrow> string" where
  "format_spec_3f (Finite x) = format_3f x"
| "format_spec_3f NegZero = ''-0.000''"
| "format_spec_3f PosInf = ''inf''"
| "format_spec_3f NegInf = ''-inf''"
| "format_spec_3f NaN = ''nan''"

subsection \<open>\<^verbatim>\<open>InfoMessage.get_message\<close>\<close>

text \<open>
  \<^verbatim>\<open>MESSAGE\<close> with its five replacement fields \<^verbatim>\<open>training_type\<close>, \<^verbatim>\<open>duration\<close>,
  \<^verbatim>\<open>distance\<close>, \<^verbatim>\<open>speed\<close> and \<^verbatim>\<open>calories\<close> filled in. The literal text is the
  source's, in UTF-8; transliterated it reads
  \<^verbatim>\<open>Tip trenirovki: _; Dlitel'nost': _ ch.; Distantsiya: _ km; Sr. skorost': _ km/ch; Potracheno kkal: _.\<close>
\<close>

definition MESSAGE :: "string \<Rightarrow> string \<Rightarrow> string \<Rightarrow> string \<Rightarrow> string \<Rightarrow> string" where
  "MESSAGE type_field duration_field distance_field speed_field calories_field =
     [CHR 0xD0, CHR 0xA2, CHR 0xD0, CHR 0xB8, CHR 0xD0, CHR 0xBF] @ '' ''
     @ [CHR 0xD1, CHR 0x82, CHR 0xD1, CHR 0x80, CHR 0xD0, CHR 0xB5, CHR 0xD0, CHR 0xBD,
        CHR 0xD0, CHR 0xB8, CHR 0xD1, CHR 0x80, CHR 0xD0, CHR 0xBE, CHR 0xD0, CHR 0xB2,
        CHR 0xD0, CHR 0xBA, CHR 0xD0, CHR 0xB8] @ '': ''
     @ type_field
     @ ''; ''
     @ [CHR 0xD0, CHR 0x94, CHR 0xD0, CHR 0xBB, CHR 0xD0, CHR 0xB8, CHR 0xD1, CHR 0x82,
        CHR 0xD0, CHR 0xB5, CHR 0xD0, CHR 0xBB, CHR 0xD1, CHR 0x8C, CHR 0xD0, CHR 0xBD,
        CHR 0xD0, CHR 0xBE, CHR 0xD1, CHR 0x81, CHR 0xD1, CHR 0x82, CHR 0xD1, CHR 0x8C] @ '': ''
     @ duration_field
     @ '' '' @ [CHR 0xD1, CHR 0x87] @ ''.; ''
     @ [CHR 0xD0, CHR 0x94, CHR 0xD0, CHR 0xB8, CHR 0xD1, CHR 0x81, CHR 0xD1, CHR 0x82,
        CHR 0xD0, CHR 0xB0, CHR 0xD0, CHR 0xBD, CHR 0xD1, CHR 0x86, CHR 0xD0, CHR 0xB8,
        CHR 0xD1, CHR 0x8F] @ '': ''
     @ distance_field
     @ '' '' @ [CHR 0xD0, CHR 0xBA, CHR 0xD0, CHR 0xBC] @ ''; ''
     @ [CHR 0xD0, CHR 0xA1, CHR 0xD1, CHR 0x80] @ ''. ''
     @ [CHR 0xD1, CHR 0x81, CHR 0xD0, CHR 0xBA, CHR 0xD0, CHR 0xBE, CHR 0xD1, CHR 0x80,
        CHR 0xD0, CHR 0xBE, CHR 0xD1, CHR 0x81, CHR 0xD1, CHR 0x82, CHR 0xD1, CHR 0x8C] @ '': ''
     @ speed_field
     @ '' '' @ [CHR 0xD0, CHR 0xBA, CHR 0xD0, CHR 0xBC] @ ''/'' @ [CHR 0xD1, CHR 0x87] @ ''; ''
     @ [CHR 0xD0, CHR 0x9F, CHR 0xD0, CHR 0xBE, CHR 0xD1, CHR 0x82, CHR 0xD1, CHR 0x80,
        CHR 0xD0, CHR 0xB0, CHR 0xD1, CHR 0x87, CHR 0xD0, CHR 0xB5, CHR 0xD0, CHR 0xBD,
        CHR 0xD0, CHR 0xBE] @ '' ''
     @ [CHR 0xD0, CHR 0xBA, CHR 0xD0, CHR 0xBA, CHR 0xD0, CHR 0xB0, CHR 0xD0, CHR 0xBB] @ '': ''
     @ calories_field
     @ ''.''"

text \<open>
  \<^verbatim>\<open>str.format\<close> applies \<^verbatim>\<open>.3f\<close> to the four metrics; on \<^verbatim>\<open>None\<close> that raises
  \<^verbatim>\<open>TypeError\<close>.
\<close>

definition get_message :: "InfoMessage \<Rightarrow> error + string" where
  "get_message self =
     (case info_calories self of
        None \<Rightarrow> Inl TypeError
      | Some c \<Rightarrow>
          Inr (MESSAGE (training_type self) (format_spec_3f (info_duration self))
                 (format_spec_3f (info_distance self)) (format_spec_3f (info_speed self))
                 (format_spec_3f c)))"

subsection \<open>\<^verbatim>\<open>read_package\<close>\<close>

text \<open>
  The generated \<^verbatim>\<open>__init__\<close> of each dataclass takes exactly its fields as
  positional arguments; \<^verbatim>\<open>cls(*data)\<close> with any other number of values raises
  \<^verbatim>\<open>TypeError\<close>.
\<close>

fun Running_init :: "real list \<Rightarrow> error + training" where
  "Running_init [a, d, w] = Inr (Running a d w)"
| "Running_init data = Inl TypeError"

fun SportsWalking_init :: "real list \<Rightarrow> error + training" where
  "SportsWalking_init [a, d, w, h] = Inr (SportsWalking a d w h)"
| "SportsWalking_init data = Inl TypeError"

fun Swimming_init :: "real list \<Rightarrow> error + training" where
  "Swimming_init [a, d, w, l, c] = Inr (Swimming a d w l c)"
| "Swimming_init data = Inl TypeError"

definition dict_training :: "string \<rightharpoonup> (real list \<Rightarrow> error + training)" where
  "dict_training =
     [''SWM'' \<mapsto> Swimming_init, ''RUN'' \<mapsto> Running_init, ''WLK'' \<mapsto> SportsWalking_init]"

text \<open>The diagnostic line; transliterated, \<^verbatim>\<open>Trenirovka ne naidena!\<close>\<close>

definition NOT_FOUND :: string where
  "NOT_FOUND =
     [CHR 0xD0, CHR 0xA2, CHR 0xD1, CHR 0x80, CHR 0xD0, CHR 0xB5, CHR 0xD0, CHR 0xBD,
      CHR 0xD0, CHR 0xB8, CHR 0xD1, CHR 0x80, CHR 0xD0, CHR 0xBE, CHR 0xD0, CHR 0xB2,
      CHR 0xD0, CHR 0xBA, CHR 0xD0, CHR 0xB0] @ '' ''
     @ [CHR 0xD0, CHR 0xBD, CHR 0xD0, CHR 0xB5] @ '' ''
     @ [CHR 0xD0, CHR 0xBD, CHR 0xD0, CHR 0xB0, CHR 0xD0, CHR 0xB9, CHR 0xD0, CHR 0xB4,
        CHR 0xD0, CHR 0xB5, CHR 0xD0, CHR 0xBD, CHR 0xD0, CHR 0xB0] @ ''!''"

text \<open>
  The result is the lines printed and either the exception raised or the value
  returned; falling off the \<^verbatim>\<open>else\<close> branch returns \<^verbatim>\<open>None\<close>.
\<close>

definition read_package :: "string \<Rightarrow> real list \<Rightarrow> string list \<times> (error + training option)" where
  "read_package workout_type data =
     (case dict_training workout_type of
        Some cls \<Rightarrow>
          (case cls data of
             Inl e \<Rightarrow> ([], Inl e)
           | Inr info_packages \<Rightarrow> ([], Inr (Some info_packages)))
      | None \<Rightarrow> ([NOT_FOUND], Inr None))"

subsection \<open>\<^verbatim>\<open>main\<close> and the script\<close>

definition main :: "training option \<Rightarrow> string list \<times> (error + unit)" where
  "main training =
     (case show_training_info training of
        Inl e \<Rightarrow> ([], Inl e)
      | Inr info \<Rightarrow>
          (case get_message info of
             Inl e \<Rightarrow> ([], Inl e)
           | Inr line \<Rightarrow> ([line], Inr ())))"

text \<open>
  The loop under \<^verbatim>\<open>if __name__ == '__main__'\<close>, over any list of packages. Nothing
  catches an exception, so the first one ends the run; the lines printed before it stay
  printed.
\<close>

fun script :: "(string \<times> real list) list \<Rightarrow> string list \<times> (error + unit)" where
  "script [] = ([], Inr ())"
| "script ((workout_type, data) # rest) =
     (case read_package workout_type data of
        (out1, Inl e) \<Rightarrow> (out1, Inl e)
      | (out1, Inr training) \<Rightarrow>
          (case main training of
             (out2, Inl e) \<Rightarrow> (out1 @ out2, Inl e)
           | (out2, Inr u) \<Rightarrow>
               (case script rest of (out3, r) \<Rightarrow> (out1 @ out2 @ out3, r))))"

definition packages :: "(string \<times> real list) list" where
  "packages =
     [(''SWM'', [720, 1, 80, 25, 40]),
      (''RUN'', [15000, 1, 75]),
      (''WLK'', [9000, 1, 75, 180])]"

subsection \<open>Objects in a store\<close>

text \<open>
  To speak about mutation, objects live in a store and a method receives a reference:
  the store is the list of objects allocated so far and a reference is an index into it.
  A method returns its result and the store it leaves behind. None of the four methods
  of \<^verbatim>\<open>Training\<close> assigns to an attribute; \<^verbatim>\<open>show_training_info\<close> allocates the
  \<^verbatim>\<open>InfoMessage\<close> it returns. A reference that does not hold a training object behaves
  as \<^verbatim>\<open>None\<close> does.
\<close>

datatype obj = TrainingObj training | InfoMessageObj InfoMessage

type_synonym store = "obj list"

fun load :: "store \<Rightarrow> nat \<Rightarrow> training option" where
  "load s p =
     (if p < length s then (case s ! p of TrainingObj t \<Rightarrow> Some t | InfoMessageObj m \<Rightarrow> None)
      else None)"

definition ref_get_distance :: "nat \<Rightarrow> store \<Rightarrow> (error + real) \<times> store" where
  "ref_get_distance p s =
     (case load s p of
        None \<Rightarrow> (Inl AttributeError, s)
      | Some self \<Rightarrow> (Inr (get_distance self), s))"

definition ref_get_mean_speed :: "nat \<Rightarrow> store \<Rightarrow> (error + real) \<times> store" where
  "ref_get_mean_speed p s =
     (case load s p of
        None \<Rightarrow> (Inl AttributeError, s)
      | Some self \<Rightarrow> (get_mean_speed self, s))"

definition ref_get_spent_calories :: "nat \<Rightarrow> store \<Rightarrow> (error + real option) \<times> store" where
  "ref_get_spent_calories p s =
     (case load s p of
        None \<Rightarrow> (Inl AttributeError, s)
      | Some self \<Rightarrow> (get_spent_calories self, s))"

definition ref_show_training_info :: "nat \<Rightarrow> store \<Rightarrow> (error + nat) \<times> store" where
  "ref_show_training_info p s =
     (case show_training_info (load s p) of
        Inl e \<Rightarrow> (Inl e, s)
      | Inr info \<Rightarrow> (Inr (length s), s @ [InfoMessageObj info]))"

subsection \<open>Shape of a rendered number\<close>

text \<open>
  A string is in fixed-point notation with three fractional digits when it is an
  optional minus sign, at least one decimal digit, a point and exactly three decimal
  digits: no exponent, no other character.
\<close>

definition fixed_point_3 :: "string \<Rightarrow> bool" where
  "fixed_point_3 s =
     (\<exists>sgn ip fr. s = sgn @ ip @ ''.'' @ fr
        \<and> (sgn = [] \<or> sgn = ''-'')
        \<and> ip \<noteq> [] \<and> set ip \<subseteq> set ''0123456789''
        \<and> length fr = 3 \<and> set fr \<subseteq> set ''0123456789'')"

text \<open>
  The value a string in that notation denotes: the digits before the point as a number,
  plus the digits after it as a fraction, negated after a minus sign.
\<close>

definition digit_value :: "char \<Rightarrow> nat" where
  "digit_value c = length (takeWhile (\<lambda>d. d \<noteq> c) ''0123456789'')"

definition decimal_nat :: "string \<Rightarrow> nat" where
  "decimal_nat s = foldl (\<lambda>a c. 10 * a + digit_value c) 0 s"

definition decimal_value :: "string \<Rightarrow> real" where
  "decimal_value s =
     (let negative = (s \<noteq> [] \<and> hd s = CHR ''-'');
          u = (if negative then tl s else s);
          ip = takeWhile (\<lambda>c. c \<noteq> CHR ''.'') u;
          fr = drop (length ip + 1) u;
          v = real (decimal_nat ip) + real (decimal_nat fr) / 10 ^ length fr
      in if negative then - v else v)"

text \<open>
  A string renders a number to three decimals when it is in the notation above and
  denotes a value no more than half a unit of the last digit away from the number.
\<close>

definition renders_3f :: "string \<Rightarrow> real \<Rightarrow> bool" where
  "renders_3f s x = (fixed_point_3 s \<and> \<bar>decimal_value s - x\<bar> \<le> 1 / 2000)"

text \<open>
  The finite values of a \<^verbatim>\<open>float\<close> (binary64): an integer below \<open>2 ^ 53\<close> in magnitude
  times a power of two between \<open>1 / 2 ^ 1074\<close> and \<open>2 ^ 971\<close>. A metric field holds
  such a value when it is a finite \<^verbatim>\<open>float\<close>, \<^verbatim>\<open>-0.0\<close> included, or an \<^verbatim>\<open>int\<close>
  that a \<^verbatim>\<open>float\<close> holds exactly.
\<close>

definition is_double :: "real \<Rightarrow> bool" where
  "is_double x =
     (\<exists>m a b. \<bar>m\<bar> < 2 ^ 53 \<and> a \<le> 971 \<and> b \<le> 1074
        \<and> x = real_of_int m * 2 ^ a / 2 ^ b)"

fun finite_value :: "number \<Rightarrow> real option" where
  "finite_value (Finite x) = Some x"
| "finite_value NegZero = Some 0"
| "finite_value n = None"

definition finite_float :: "number \<Rightarrow> real \<Rightarrow> bool" where
  "finite_float n x = (finite_value n = Some x \<and> is_double x)"

subsection \<open>The swimming methods in binary64 arithmetic\<close>

text \<open>
  A finite \<^verbatim>\<open>float\<close> is the real number it denotes. \<open>binary64 x\<close> is the
  \<^verbatim>\<open>float\<close> nearest to \<open>x\<close>, an exact tie going to the even mantissa: \<open>x\<close> is
  rounded to a multiple of \<open>2 ^ q\<close>, where \<open>q\<close> is 52 below the binary exponent of
  \<open>x\<close> and never below \<open>-1074\<close> (the subnormal range). Python's operators on
  \<^verbatim>\<open>float\<close> return the exact result rounded that way, a literal such as \<^verbatim>\<open>1.38\<close>
  denotes the rounded decimal, and an \<^verbatim>\<open>int\<close> operand is converted first, which changes
  nothing while a \<^verbatim>\<open>float\<close> holds it. Results beyond the largest \<^verbatim>\<open>float\<close> are
  outside this model too.
\<close>

function binary_exponent :: "real \<Rightarrow> int" where
  "binary_exponent x =
     (if 2 \<le> x then binary_exponent (x / 2) + 1
      else if 0 < x \<and> x < 1 then binary_exponent (2 * x) - 1
      else 0)"
  by pat_completeness auto
termination
proof (relation "measure (\<lambda>x. nat \<lceil>x\<rceil> + 2 * nat \<lceil>1 / x\<rceil>)")
  show "wf (measure (\<lambda>x. nat \<lceil>x\<rceil> + 2 * nat \<lceil>1 / x\<rceil>))" by simp
next
  fix x :: real
  assume x: "2 \<le> x"
  have a: "\<lceil>x / 2\<rceil> < \<lceil>x\<rceil>"
  proof -
    have "x / 2 \<le> x - 1" using x by simp
    then have "\<lceil>x / 2\<rceil> \<le> \<lceil>x - 1\<rceil>" by (rule ceiling_mono)
    then show ?thesis by simp
  qed
  have b: "\<lceil>1 / (x / 2)\<rceil> = 1" "\<lceil>1 / x\<rceil> = 1"
    using x by (simp_all add: ceiling_eq_iff field_simps)
  have c: "0 < \<lceil>x / 2\<rceil>" using x by simp
  from a b c show "(x / 2, x) \<in> measure (\<lambda>x. nat \<lceil>x\<rceil> + 2 * nat \<lceil>1 / x\<rceil>)"
    by simp
next
  fix x :: real
  assume "\<not> 2 \<le> x" and x: "0 < x \<and> x < 1"
  define y where "y = 1 / x"
  have y: "1 < y" using x by (simp add: y_def)
  have a: "\<lceil>x\<rceil> = 1" using x by (simp add: ceiling_eq_iff)
  have b: "\<lceil>2 * x\<rceil> \<le> 2" using x by (simp add: ceiling_le_iff)
  have c: "\<lceil>y / 2\<rceil> < \<lceil>y\<rceil>"
  proof (cases "y \<le> 2")
    case True
    with y have "\<lceil>y / 2\<rceil> = 1" "\<lceil>y\<rceil> = 2" by (simp_all add: ceiling_eq_iff)
    then show ?thesis by simp
  next
    case False
    then have "y / 2 \<le> y - 1" by simp
    then have "\<lceil>y / 2\<rceil> \<le> \<lceil>y - 1\<rceil>" by (rule ceiling_mono)
    then show ?thesis by simp
  qed
  have d: "1 / (2 * x) = y / 2" by (simp add: y_def)
  have e: "0 < \<lceil>y / 2\<rceil>" using y by simp
  have f: "0 < \<lceil>2 * x\<rceil>" using x by simp
  from a b c e f show "(2 * x, x) \<in> measure (\<lambda>x. nat \<lceil>x\<rceil> + 2 * nat \<lceil>1 / x\<rceil>)"
    unfolding in_measure d y_def [symmetric] by linarith
qed

declare binary_exponent.simps [simp del]

definition binary64 :: "real \<Rightarrow> real" where
  "binary64 x =
     (let q = max (binary_exponent \<bar>x\<bar> - 52) (- 1074)
      in if 0 \<le> q then real_of_int (round_half_even (x / 2 ^ nat q)) * 2 ^ nat q
         else real_of_int (round_half_even (x * 2 ^ nat (- q))) / 2 ^ nat (- q))"

definition float_add :: "real \<Rightarrow> real \<Rightarrow> real" where
  "float_add x y = binary64 (x + y)"

definition float_mul :: "real \<Rightarrow> real \<Rightarrow> real" where
  "float_mul x y = binary64 (x * y)"

definition float_div :: "real \<Rightarrow> real \<Rightarrow> error + real" where
  "float_div x y = (if y = 0 then Inl ZeroDivisionError else Inr (binary64 (x / y)))"

text \<open>
  The three methods of \<^verbatim>\<open>Swimming\<close> once more, operation by operation as the source
  writes them, each one rounded.
\<close>

definition Swimming_get_distance_binary64 :: "training \<Rightarrow> real" where
  "Swimming_get_distance_binary64 self =
     binary64 (float_mul (action self) (binary64 (LEN_STEP self)) / M_IN_KM)"

fun Swimming_get_mean_speed_binary64 :: "training \<Rightarrow> error + real" where
  "Swimming_get_mean_speed_binary64 (Swimming a d w l c) =
     float_div (binary64 (float_mul l c / M_IN_KM)) d"
| "Swimming_get_mean_speed_binary64 self = Inl AttributeError"

definition Swimming_get_spent_calories_binary64 :: "training \<Rightarrow> error + real option" where
  "Swimming_get_spent_calories_binary64 self =
     (case Swimming_get_mean_speed_binary64 self of
        Inl e \<Rightarrow> Inl e
      | Inr v \<Rightarrow>
          Inr (Some (float_mul
                       (float_mul (float_mul (float_add v (binary64 OFFSET_AVG_SPEED))
                                             SPEED_MULTIPLIER)
                                  (weight self))
                       (duration self))))"

section \<open>Auxiliary facts\<close>

lemmas attribute_defs = M_IN_KM_def CALORIES_MEAN_SPEED_MULTIPLIER_def
  CALORIES_MEAN_SPEED_SHIFT_def Running_MIN_def WEIGHT_MULTIPLIER_def AVG_MULTIPLIER_def
  CONVERSION_ms_def CONVERSION_m_def SportsWalking_MIN_def OFFSET_AVG_SPEED_def
  SPEED_MULTIPLIER_def

lemmas method_defs = Training_get_distance_def Training_get_mean_speed_def
  Training_get_spent_calories_def Swimming_get_distance_def Swimming_get_mean_speed_def
  Swimming_get_spent_calories_def py_div_def

lemmas format_defs = format_3f_def round_half_even_def digits.simps digit_def Let_def

lemma digit_is_digit: "n < 10 \<Longrightarrow> digit n \<in> set ''0123456789''"
proof -
  assume "n < 10"
  then have "n < length ''0123456789''" by simp
  then show ?thesis unfolding digit_def by (rule nth_mem)
qed

lemma digits_nonempty: "digits n \<noteq> []"
  by (subst digits.simps) simp

lemma digits_are_digits: "set (digits n) \<subseteq> set ''0123456789''"
proof (induction n rule: digits.induct)
  case (1 n)
  show ?case
  proof (cases "n < 10")
    case True
    then show ?thesis
      using digit_is_digit [of n] by (subst digits.simps) simp
  next
    case False
    have "digit (n mod 10) \<in> set ''0123456789''"
      by (rule digit_is_digit) simp
    with False 1 show ?thesis
      by (subst digits.simps) simp
  qed
qed

lemma format_3f_fixed_point: "fixed_point_3 (format_3f x)"
proof -
  define n where "n = nat (round_half_even (\<bar>x\<bar> * 1000))"
  define sgn where "sgn = (if x < 0 then ''-'' else [])"
  define fr where "fr = [digit (n div 100 mod 10), digit (n div 10 mod 10), digit (n mod 10)]"
  have eq: "format_3f x = sgn @ digits (n div 1000) @ ''.'' @ fr"
    by (simp add: format_3f_def n_def sgn_def fr_def Let_def)
  have s: "sgn = [] \<or> sgn = ''-''"
    by (simp add: sgn_def)
  have "digit (n div 100 mod 10) \<in> set ''0123456789''"
    and "digit (n div 10 mod 10) \<in> set ''0123456789''"
    and "digit (n mod 10) \<in> set ''0123456789''"
    by (rule digit_is_digit, simp)+
  then have f: "length fr = 3 \<and> set fr \<subseteq> set ''0123456789''"
    unfolding fr_def by simp
  show ?thesis
    unfolding fixed_point_3_def
    using eq s f digits_nonempty [of "n div 1000"] digits_are_digits [of "n div 1000"]
    by blast
qed

lemma Running_init_mismatch: "length data \<noteq> 3 \<Longrightarrow> Running_init data = Inl TypeError"
  by (cases data rule: Running_init.cases) simp_all

lemma SportsWalking_init_mismatch:
  "length data \<noteq> 4 \<Longrightarrow> SportsWalking_init data = Inl TypeError"
  by (cases data rule: SportsWalking_init.cases) simp_all

lemma Swimming_init_mismatch: "length data \<noteq> 5 \<Longrightarrow> Swimming_init data = Inl TypeError"
  by (cases data rule: Swimming_init.cases) simp_all

lemmas binary64_defs = binary64_def binary_exponent.simps round_half_even_def Let_def
  float_add_def float_mul_def float_div_def

lemma digit_value_digit: "n < 10 \<Longrightarrow> digit_value (digit n) = n"
proof -
  assume "n < 10"
  then have "n = 0 \<or> n = 1 \<or> n = 2 \<or> n = 3 \<or> n = 4 \<or> n = 5 \<or> n = 6 \<or> n = 7 \<or> n = 8 \<or> n = 9"
    by arith
  then show ?thesis
    by (elim disjE) (simp_all add: digit_value_def digit_def)
qed

lemma decimal_nat_snoc: "decimal_nat (s @ [c]) = 10 * decimal_nat s + digit_value c"
  by (simp add: decimal_nat_def)

lemma decimal_nat_digits: "decimal_nat (digits n) = n"
proof (induction n rule: digits.induct)
  case (1 n)
  show ?case
  proof (cases "n < 10")
    case True
    then show ?thesis
      by (subst digits.simps) (simp add: decimal_nat_def digit_value_digit)
  next
    case False
    with 1 have "decimal_nat (digits (n div 10)) = n div 10" by simp
    with False show ?thesis
      by (subst digits.simps) (simp add: decimal_nat_snoc digit_value_digit)
  qed
qed

lemma digits_no_point: "CHR ''.'' \<notin> set (digits n)"
  using digits_are_digits [of n] by auto

lemma digits_no_minus: "CHR ''-'' \<notin> set (digits n)"
  using digits_are_digits [of n] by auto

lemma hd_digits: "hd (digits n) \<noteq> CHR ''-''"
  using digits_no_minus [of n] digits_nonempty [of n] by (cases "digits n") auto

lemma takeWhile_digits: "takeWhile (\<lambda>c. c \<noteq> CHR ''.'') (digits n @ CHR ''.'' # fr) = digits n"
proof -
  have "takeWhile (\<lambda>c. c \<noteq> CHR ''.'') (digits n @ CHR ''.'' # fr)
        = digits n @ takeWhile (\<lambda>c. c \<noteq> CHR ''.'') (CHR ''.'' # fr)"
    by (rule takeWhile_append2) (use digits_no_point [of n] in auto)
  then show ?thesis by simp
qed

lemma decimal_nat_3:
  "decimal_nat [digit (n div 100 mod 10), digit (n div 10 mod 10), digit (n mod 10)] = n mod 1000"
proof -
  have "decimal_nat [digit (n div 100 mod 10), digit (n div 10 mod 10), digit (n mod 10)]
        = 100 * (n div 100 mod 10) + 10 * (n div 10 mod 10) + n mod 10"
    by (simp add: decimal_nat_def digit_value_digit)
  also have "\<dots> = n mod 1000"
    using mod_mult2_eq [of n 100 10] mod_mult2_eq [of n 10 10] by simp
  finally show ?thesis .
qed

lemma decimal_value_unsigned:
  "decimal_value (digits (n div 1000) @ ''.''
       @ [digit (n div 100 mod 10), digit (n div 10 mod 10), digit (n mod 10)]) = real n / 1000"
proof -
  let ?fr = "[digit (n div 100 mod 10), digit (n div 10 mod 10), digit (n mod 10)]"
  let ?u = "digits (n div 1000) @ CHR ''.'' # ?fr"
  have h: "\<not> (?u \<noteq> [] \<and> hd ?u = CHR ''-'')"
    using hd_digits [of "n div 1000"] digits_nonempty [of "n div 1000"] by simp
  have t: "takeWhile (\<lambda>c. c \<noteq> CHR ''.'') ?u = digits (n div 1000)"
    by (rule takeWhile_digits)
  have "decimal_value ?u = real (n div 1000) + real (n mod 1000) / 1000"
    unfolding decimal_value_def Let_def using h
    by (simp only: t if_False) (simp add: decimal_nat_digits decimal_nat_3)
  also have "\<dots> = real n / 1000"
  proof -
    have "real (n div 1000 * 1000 + n mod 1000) = real n"
      by (simp only: div_mult_mod_eq)
    then have "real (n div 1000) * 1000 + real (n mod 1000) = real n"
      by (simp only: of_nat_add of_nat_mult of_nat_numeral)
    then show ?thesis by argo
  qed
  finally show ?thesis by simp
qed


lemma round_half_even_close: "\<bar>real_of_int (round_half_even y) - y\<bar> \<le> 1 / 2"
proof -
  have "real_of_int \<lfloor>y\<rfloor> \<le> y" and "y < real_of_int \<lfloor>y\<rfloor> + 1"
    by linarith+
  then show ?thesis
    unfolding round_half_even_def Let_def by (auto split: if_splits)
qed

lemma round_half_even_nonneg: "0 \<le> y \<Longrightarrow> 0 \<le> round_half_even y"
proof -
  assume "0 \<le> y"
  then have "0 \<le> \<lfloor>y\<rfloor>" by simp
  then show ?thesis
    unfolding round_half_even_def Let_def by (auto split: if_splits)
qed

lemma decimal_value_minus:
  assumes "\<not> (u \<noteq> [] \<and> hd u = CHR ''-'')"
  shows "decimal_value (CHR ''-'' # u) = - decimal_value u"
proof (cases "u = []")
  case True
  then show ?thesis by (simp add: decimal_value_def Let_def)
next
  case False
  with assms have "hd u \<noteq> CHR ''-''" by simp
  with False show ?thesis by (simp add: decimal_value_def Let_def)
qed

lemma decimal_value_format_3f: "\<bar>decimal_value (format_3f x) - x\<bar> \<le> 1 / 2000"
proof -
  define n where "n = nat (round_half_even (\<bar>x\<bar> * 1000))"
  let ?u = "digits (n div 1000) @ ''.''
              @ [digit (n div 100 mod 10), digit (n div 10 mod 10), digit (n mod 10)]"
  have u: "decimal_value ?u = real n / 1000"
    by (rule decimal_value_unsigned)
  have "0 \<le> round_half_even (\<bar>x\<bar> * 1000)"
    by (rule round_half_even_nonneg) simp
  then have "real n = real_of_int (round_half_even (\<bar>x\<bar> * 1000))"
    by (simp add: n_def)
  with round_half_even_close [of "\<bar>x\<bar> * 1000"] have "\<bar>real n - \<bar>x\<bar> * 1000\<bar> \<le> 1 / 2"
    by simp
  then have close: "\<bar>real n / 1000 - \<bar>x\<bar>\<bar> \<le> 1 / 2000"
    by argo
  show ?thesis
  proof (cases "x < 0")
    case True
    have h: "\<not> (?u \<noteq> [] \<and> hd ?u = CHR ''-'')"
      using hd_digits [of "n div 1000"] digits_nonempty [of "n div 1000"] by simp
    from True have "format_3f x = CHR ''-'' # ?u"
      by (simp add: format_3f_def n_def Let_def)
    with decimal_value_minus [OF h] u have "decimal_value (format_3f x) = - (real n / 1000)"
      by simp
    with close True show ?thesis by argo
  next
    case False
    then have "format_3f x = ?u"
      by (simp add: format_3f_def n_def Let_def)
    with u have "decimal_value (format_3f x) = real n / 1000"
      by simp
    with close False show ?thesis by argo
  qed
qed

lemma renders_format_3f: "renders_3f (format_3f x) x"
  unfolding renders_3f_def by (rule conjI [OF format_3f_fixed_point decimal_value_format_3f])

lemma renders_negative_zero: "renders_3f ''-0.000'' 0"
proof -
  have "''-0.000'' = ''-'' @ ''0'' @ ''.'' @ ''000''" by simp
  then have "fixed_point_3 ''-0.000''"
    unfolding fixed_point_3_def
    by (intro exI [of _ "''-''"] exI [of _ "''0''"] exI [of _ "''000''"]) simp
  moreover have "decimal_value ''-0.000'' = 0"
    by (simp add: decimal_value_def decimal_nat_def digit_value_def)
  ultimately show ?thesis by (simp add: renders_3f_def)
qed

lemma renders_format_spec_3f:
  assumes "finite_float n x"
  shows "renders_3f (format_spec_3f n) x"
proof (cases n)
  case (Finite y)
  with assms show ?thesis by (simp add: finite_float_def renders_format_3f)
next
  case NegZero
  with assms have "x = 0" by (simp add: finite_float_def)
  with NegZero show ?thesis by (simp add: renders_negative_zero)
qed (use assms in \<open>simp_all add: finite_float_def\<close>)

lemma inf_not_fixed_point: "\<not> fixed_point_3 ''inf''"
proof
  assume "fixed_point_3 ''inf''"
  then obtain sgn ip fr where eq: "''inf'' = sgn @ ip @ ''.'' @ fr"
    unfolding fixed_point_3_def by blast
  have "CHR ''.'' \<in> set (sgn @ ip @ ''.'' @ fr)" by simp
  then have "CHR ''.'' \<in> set ''inf''" unfolding eq [symmetric] .
  then show False by simp
qed

section \<open>Unknown workout code\<close>

text \<open>
  C1. The pair \<^verbatim>\<open>("XYZ", [1, 2, 3])\<close>, followed by a good package.
  \<^verbatim>\<open>read_package\<close> prints the diagnostic line and returns \<^verbatim>\<open>None\<close> without
  raising. The loop hands that \<^verbatim>\<open>None\<close> to \<^verbatim>\<open>main\<close>, where
  \<^verbatim>\<open>self.duration\<close> raises \<^verbatim>\<open>AttributeError\<close>: the run ends there, and the
  package after it is never processed.
\<close>

theorem unknown_code_run:
  "read_package ''XYZ'' [1, 2, 3] = ([NOT_FOUND], Inr None)
   \<and> main None = ([], Inl AttributeError)
   \<and> script [(''XYZ'', [1, 2, 3]), (''RUN'', [15000, 1, 75])]
       = ([NOT_FOUND], Inl AttributeError)"
  by (simp add: read_package_def dict_training_def main_def)

section \<open>Calories on the base class\<close>

text \<open>
  C2. On an object of the base class \<^verbatim>\<open>Training\<close>, \<^verbatim>\<open>get_spent_calories\<close>
  raises nothing and returns \<^verbatim>\<open>None\<close>; the failure only shows later, as a
  \<^verbatim>\<open>TypeError\<close> when the message is formatted.
\<close>

theorem base_calories_returns_None:
  "get_spent_calories (Training 15000 1 75) = Inr None
   \<and> main (Some (Training 15000 1 75)) = ([], Inl TypeError)"
  by (simp add: main_def get_message_def method_defs attribute_defs)

section \<open>Distance\<close>

text \<open>
  C3. For every record, the distance is the action count times the step length of the
  record's class, divided by 1000: \<open>action * 0.65 / 1000\<close> for Running and
  SportsWalking (and for the base class), \<open>action * 1.38 / 1000\<close> for Swimming.
\<close>

theorem get_distance_formula:
  "get_distance t = action t * LEN_STEP t / 1000
   \<and> get_distance (Running a d w) = a * 0.65 / 1000
   \<and> get_distance (SportsWalking a d w h) = a * 0.65 / 1000
   \<and> get_distance (Swimming a d w l c) = a * 1.38 / 1000"
  by (cases t) (simp_all add: Training_get_distance_def Swimming_get_distance_def M_IN_KM_def)

section \<open>Mean speed of swimming\<close>

text \<open>
  C4. For every Swimming record with a non-zero duration (the data model requires a
  positive one), the mean speed is \<open>length_pool * count_pool / 1000 / duration\<close>; and
  two Swimming records that differ in the action count only have the same mean speed
  (also the same exception, when the duration is zero).
\<close>

theorem swimming_mean_speed:
  "(d \<noteq> 0 \<longrightarrow> get_mean_speed (Swimming a d w l c) = Inr (l * c / 1000 / d))
   \<and> get_mean_speed (Swimming a d w l c) = get_mean_speed (Swimming a' d w l c)"
  by (simp add: method_defs attribute_defs)

text \<open>The sample swimming package, and the same with another stroke count.\<close>

theorem swimming_mean_speed_witness:
  "(1::real) \<noteq> 0 \<and> get_mean_speed (Swimming 720 1 80 25 40) = Inr 1
   \<and> get_mean_speed (Swimming 720 1 80 25 40) = get_mean_speed (Swimming 1000 1 80 25 40)"
  using swimming_mean_speed [of 1 720 80 25 40 1000] by auto

section \<open>The running scenario\<close>

text \<open>
  C5, amended. For the package \<^verbatim>\<open>("RUN", [15000, 1, 75])\<close> the distance is 9.75, the
  mean speed is 9.75, the calories are \<open>(18 * 9.75 + 1.79) * 75 / 1000 * 60\<close>, which is
  797.805, and the line printed carries 1.000, 9.750, 9.750 and 797.805 (the last
  conjunct spells the line out, byte by byte).
\<close>

theorem run_scenario:
  "read_package ''RUN'' [15000, 1, 75] = ([], Inr (Some (Running 15000 1 75)))
   \<and> get_distance (Running 15000 1 75) = 9.75
   \<and> get_mean_speed (Running 15000 1 75) = Inr 9.75
   \<and> get_spent_calories (Running 15000 1 75) = Inr (Some ((18 * 9.75 + 1.79) * 75 / 1000 * 60))
   \<and> (18 * 9.75 + 1.79) * 75 / 1000 * 60 = (797.805 :: real)
   \<and> script [(''RUN'', [15000, 1, 75])]
       = ([MESSAGE ''Running'' ''1.000'' ''9.750'' ''9.750'' ''797.805''], Inr ())
   \<and> script [(''RUN'', [15000, 1, 75])]
       = ([([CHR 0xD0, CHR 0xA2, CHR 0xD0, CHR 0xB8, CHR 0xD0, CHR 0xBF] @ '' ''
          @ [CHR 0xD1, CHR 0x82, CHR 0xD1, CHR 0x80, CHR 0xD0, CHR 0xB5, CHR 0xD0, CHR 0xBD]
          @ [CHR 0xD0, CHR 0xB8, CHR 0xD1, CHR 0x80, CHR 0xD0, CHR 0xBE, CHR 0xD0, CHR 0xB2]
          @ [CHR 0xD0, CHR 0xBA, CHR 0xD0, CHR 0xB8] @ '': Running; ''
          @ [CHR 0xD0, CHR 0x94, CHR 0xD0, CHR 0xBB, CHR 0xD0, CHR 0xB8, CHR 0xD1, CHR 0x82]
          @ [CHR 0xD0, CHR 0xB5, CHR 0xD0, CHR 0xBB, CHR 0xD1, CHR 0x8C, CHR 0xD0, CHR 0xBD]
          @ [CHR 0xD0, CHR 0xBE, CHR 0xD1, CHR 0x81, CHR 0xD1, CHR 0x82, CHR 0xD1, CHR 0x8C]
          @ '': 1.000 '' @ [CHR 0xD1, CHR 0x87] @ ''.; ''
          @ [CHR 0xD0, CHR 0x94, CHR 0xD0, CHR 0xB8, CHR 0xD1, CHR 0x81, CHR 0xD1, CHR 0x82]
          @ [CHR 0xD0, CHR 0xB0, CHR 0xD0, CHR 0xBD, CHR 0xD1, CHR 0x86, CHR 0xD0, CHR 0xB8]
          @ [CHR 0xD1, CHR 0x8F] @ '': 9.750 '' @ [CHR 0xD0, CHR 0xBA, CHR 0xD0, CHR 0xBC]
          @ ''; '' @ [CHR 0xD0, CHR 0xA1, CHR 0xD1, CHR 0x80] @ ''. ''
          @ [CHR 0xD1, CHR 0x81, CHR 0xD0, CHR 0xBA, CHR 0xD0, CHR 0xBE, CHR 0xD1, CHR 0x80]
          @ [CHR 0xD0, CHR 0xBE, CHR 0xD1, CHR 0x81, CHR 0xD1, CHR 0x82, CHR 0xD1, CHR 0x8C]
          @ '': 9.750 '' @ [CHR 0xD0, CHR 0xBA, CHR 0xD0, CHR 0xBC] @ ''/''
          @ [CHR 0xD1, CHR 0x87] @ ''; ''
          @ [CHR 0xD0, CHR 0x9F, CHR 0xD0, CHR 0xBE, CHR 0xD1, CHR 0x82, CHR 0xD1, CHR 0x80]
          @ [CHR 0xD0, CHR 0xB0, CHR 0xD1, CHR 0x87, CHR 0xD0, CHR 0xB5, CHR 0xD0, CHR 0xBD]
          @ [CHR 0xD0, CHR 0xBE] @ '' ''
          @ [CHR 0xD0, CHR 0xBA, CHR 0xD0, CHR 0xBA, CHR 0xD0, CHR 0xB0, CHR 0xD0, CHR 0xBB]
          @ '': 797.805.'')],
          Inr ())"
  by (simp add: read_package_def dict_training_def main_def get_message_def MESSAGE_def
        method_defs attribute_defs format_defs)

text \<open>
  C5 as stated gives the calories as about 798.0075. The code computes 797.805, more
  than 0.2 away, and renders it as 797.805.
\<close>

theorem run_scenario_calories_counterexample:
  "get_spent_calories (Running 15000 1 75) \<noteq> Inr (Some 798.0075)
   \<and> get_spent_calories (Running 15000 1 75) = Inr (Some 797.805)
   \<and> 0.2 < \<bar>797.805 - 798.0075 :: real\<bar>
   \<and> format_3f 797.805 = ''797.805''"
  by (simp add: method_defs attribute_defs format_defs)

section \<open>The swimming scenario\<close>

text \<open>
  C6, amended. For the package \<^verbatim>\<open>("SWM", [720, 1, 80, 25, 40])\<close>, computed as
  \<^verbatim>\<open>float\<close> computes: the distance \<^verbatim>\<open>720 * 1.38 / 1000\<close> is the \<^verbatim>\<open>float\<close>
  \<open>8949553179510649 / 2 ^ 53\<close>, which Python prints as \<^verbatim>\<open>0.9935999999999999\<close>; it lies
  within \<open>2 / 10 ^ 16\<close> of 0.9936 and is rendered 0.994. The mean speed
  \<^verbatim>\<open>25 * 40 / 1000 / 1\<close> is 1.0 and the calories \<^verbatim>\<open>(1.0 + 1.1) * 2 * 80 * 1\<close> are
  336.0.
\<close>

theorem swimming_scenario:
  "read_package ''SWM'' [720, 1, 80, 25, 40] = ([], Inr (Some (Swimming 720 1 80 25 40)))
   \<and> Swimming_get_distance_binary64 (Swimming 720 1 80 25 40) = 8949553179510649 / 2 ^ 53
   \<and> binary64 0.9935999999999999 = 8949553179510649 / 2 ^ 53
   \<and> \<bar>8949553179510649 / 2 ^ 53 - 0.9936\<bar> < (2 / 10 ^ 16 :: real)
   \<and> format_3f (8949553179510649 / 2 ^ 53) = ''0.994''
   \<and> Swimming_get_mean_speed_binary64 (Swimming 720 1 80 25 40) = Inr 1.0
   \<and> Swimming_get_spent_calories_binary64 (Swimming 720 1 80 25 40) = Inr (Some 336.0)"
  by (simp add: read_package_def dict_training_def Swimming_get_distance_binary64_def
        Swimming_get_spent_calories_binary64_def binary64_defs attribute_defs format_defs)

text \<open>
  C6 as stated gives the distance as 0.9936. The \<^verbatim>\<open>float\<close> the code computes is
  neither the number 0.9936 nor the \<^verbatim>\<open>float\<close> that the literal \<^verbatim>\<open>0.9936\<close> denotes,
  which is the next one up: in Python, \<^verbatim>\<open>720 * 1.38 / 1000 == 0.9936\<close> is false.
\<close>

theorem swimming_scenario_distance_counterexample:
  "Swimming_get_distance_binary64 (Swimming 720 1 80 25 40) \<noteq> 0.9936
   \<and> Swimming_get_distance_binary64 (Swimming 720 1 80 25 40) \<noteq> binary64 0.9936
   \<and> binary64 0.9936 = 4474776589755325 / 2 ^ 52
   \<and> Swimming_get_distance_binary64 (Swimming 720 1 80 25 40) = 8949553179510649 / 2 ^ 53"
  by (simp add: Swimming_get_distance_binary64_def binary64_defs attribute_defs)

section \<open>The report line\<close>

text \<open>
  C7, amended. For every message whose four metrics are finite \<^verbatim>\<open>float\<close> values,
  \<^verbatim>\<open>get_message\<close> returns the single line of the source's template: its Cyrillic
  labels, spelled out below byte by byte, around the training type and the four
  metrics; and each metric is rendered in fixed-point notation with exactly three
  fractional digits, as the decimal nearest to its value.
\<close>

theorem get_message_format:
  assumes "finite_float (info_duration m) x1"
      and "finite_float (info_distance m) x2"
      and "finite_float (info_speed m) x3"
      and "info_calories m = Some c"
      and "finite_float c x4"
  shows "\<exists>s1 s2 s3 s4.
           get_message m =
             Inr ([CHR 0xD0, CHR 0xA2, CHR 0xD0, CHR 0xB8, CHR 0xD0, CHR 0xBF] @ '' ''
               @ [CHR 0xD1, CHR 0x82, CHR 0xD1, CHR 0x80, CHR 0xD0, CHR 0xB5, CHR 0xD0, CHR 0xBD]
               @ [CHR 0xD0, CHR 0xB8, CHR 0xD1, CHR 0x80, CHR 0xD0, CHR 0xBE, CHR 0xD0, CHR 0xB2]
               @ [CHR 0xD0, CHR 0xBA, CHR 0xD0, CHR 0xB8] @ '': '' @ training_type m @ ''; ''
               @ [CHR 0xD0, CHR 0x94, CHR 0xD0, CHR 0xBB, CHR 0xD0, CHR 0xB8, CHR 0xD1, CHR 0x82]
               @ [CHR 0xD0, CHR 0xB5, CHR 0xD0, CHR 0xBB, CHR 0xD1, CHR 0x8C, CHR 0xD0, CHR 0xBD]
               @ [CHR 0xD0, CHR 0xBE, CHR 0xD1, CHR 0x81, CHR 0xD1, CHR 0x82, CHR 0xD1, CHR 0x8C]
               @ '': '' @ s1 @ '' '' @ [CHR 0xD1, CHR 0x87] @ ''.; ''
               @ [CHR 0xD0, CHR 0x94, CHR 0xD0, CHR 0xB8, CHR 0xD1, CHR 0x81, CHR 0xD1, CHR 0x82]
               @ [CHR 0xD0, CHR 0xB0, CHR 0xD0, CHR 0xBD, CHR 0xD1, CHR 0x86, CHR 0xD0, CHR 0xB8]
               @ [CHR 0xD1, CHR 0x8F] @ '': '' @ s2 @ '' ''
               @ [CHR 0xD0, CHR 0xBA, CHR 0xD0, CHR 0xBC] @ ''; ''
               @ [CHR 0xD0, CHR 0xA1, CHR 0xD1, CHR 0x80] @ ''. ''
               @ [CHR 0xD1, CHR 0x81, CHR 0xD0, CHR 0xBA, CHR 0xD0, CHR 0xBE, CHR 0xD1, CHR 0x80]
               @ [CHR 0xD0, CHR 0xBE, CHR 0xD1, CHR 0x81, CHR 0xD1, CHR 0x82, CHR 0xD1, CHR 0x8C]
               @ '': '' @ s3 @ '' '' @ [CHR 0xD0, CHR 0xBA, CHR 0xD0, CHR 0xBC] @ ''/''
               @ [CHR 0xD1, CHR 0x87] @ ''; ''
               @ [CHR 0xD0, CHR 0x9F, CHR 0xD0, CHR 0xBE, CHR 0xD1, CHR 0x82, CHR 0xD1, CHR 0x80]
               @ [CHR 0xD0, CHR 0xB0, CHR 0xD1, CHR 0x87, CHR 0xD0, CHR 0xB5, CHR 0xD0, CHR 0xBD]
               @ [CHR 0xD0, CHR 0xBE] @ '' ''
               @ [CHR 0xD0, CHR 0xBA, CHR 0xD0, CHR 0xBA, CHR 0xD0, CHR 0xB0, CHR 0xD0, CHR 0xBB]
               @ '': '' @ s4 @ ''.'')
           \<and> renders_3f s1 x1 \<and> renders_3f s2 x2 \<and> renders_3f s3 x3 \<and> renders_3f s4 x4"
proof -
  let ?s1 = "format_spec_3f (info_duration m)"
  let ?s2 = "format_spec_3f (info_distance m)"
  let ?s3 = "format_spec_3f (info_speed m)"
  let ?s4 = "format_spec_3f c"
  have line: "get_message m = Inr (MESSAGE (training_type m) ?s1 ?s2 ?s3 ?s4)"
    using assms(4) by (simp add: get_message_def)
  have r: "renders_3f ?s1 x1" "renders_3f ?s2 x2" "renders_3f ?s3 x3" "renders_3f ?s4 x4"
    using assms by (simp_all add: renders_format_spec_3f)
  show ?thesis
    by (rule exI [of _ ?s1], rule exI [of _ ?s2], rule exI [of _ ?s3], rule exI [of _ ?s4])
       (simp add: line r MESSAGE_def)
qed


text \<open>A message with the metrics of a run: 1 hour, 9.75 km, 9.75 km/h, 336 kcal.\<close>

theorem get_message_format_witness:
  "finite_float (Finite 1) 1 \<and> finite_float (Finite 9.75) 9.75 \<and> finite_float (Finite 336) 336
   \<and> (\<exists>s1 s2 s3 s4.
         get_message
           \<lparr>training_type = ''Running'', info_duration = Finite 1, info_distance = Finite 9.75,
       info_speed = Finite 9.75, info_calories = Some (Finite 336)\<rparr>
         = Inr ([CHR 0xD0, CHR 0xA2, CHR 0xD0, CHR 0xB8, CHR 0xD0, CHR 0xBF] @ '' ''
               @ [CHR 0xD1, CHR 0x82, CHR 0xD1, CHR 0x80, CHR 0xD0, CHR 0xB5, CHR 0xD0, CHR 0xBD]
               @ [CHR 0xD0, CHR 0xB8, CHR 0xD1, CHR 0x80, CHR 0xD0, CHR 0xBE, CHR 0xD0, CHR 0xB2]
               @ [CHR 0xD0, CHR 0xBA, CHR 0xD0, CHR 0xB8] @ '': '' @ ''Running'' @ ''; ''
               @ [CHR 0xD0, CHR 0x94, CHR 0xD0, CHR 0xBB, CHR 0xD0, CHR 0xB8, CHR 0xD1, CHR 0x82]
               @ [CHR 0xD0, CHR 0xB5, CHR 0xD0, CHR 0xBB, CHR 0xD1, CHR 0x8C, CHR 0xD0, CHR 0xBD]
               @ [CHR 0xD0, CHR 0xBE, CHR 0xD1, CHR 0x81, CHR 0xD1, CHR 0x82, CHR 0xD1, CHR 0x8C]
               @ '': '' @ s1 @ '' '' @ [CHR 0xD1, CHR 0x87] @ ''.; ''
               @ [CHR 0xD0, CHR 0x94, CHR 0xD0, CHR 0xB8, CHR 0xD1, CHR 0x81, CHR 0xD1, CHR 0x82]
               @ [CHR 0xD0, CHR 0xB0, CHR 0xD0, CHR 0xBD, CHR 0xD1, CHR 0x86, CHR 0xD0, CHR 0xB8]
               @ [CHR 0xD1, CHR 0x8F] @ '': '' @ s2 @ '' ''
               @ [CHR 0xD0, CHR 0xBA, CHR 0xD0, CHR 0xBC] @ ''; ''
               @ [CHR 0xD0, CHR 0xA1, CHR 0xD1, CHR 0x80] @ ''. ''
               @ [CHR 0xD1, CHR 0x81, CHR 0xD0, CHR 0xBA, CHR 0xD0, CHR 0xBE, CHR 0xD1, CHR 0x80]
               @ [CHR 0xD0, CHR 0xBE, CHR 0xD1, CHR 0x81, CHR 0xD1, CHR 0x82, CHR 0xD1, CHR 0x8C]
               @ '': '' @ s3 @ '' '' @ [CHR 0xD0, CHR 0xBA, CHR 0xD0, CHR 0xBC] @ ''/''
               @ [CHR 0xD1, CHR 0x87] @ ''; ''
               @ [CHR 0xD0, CHR 0x9F, CHR 0xD0, CHR 0xBE, CHR 0xD1, CHR 0x82, CHR 0xD1, CHR 0x80]
               @ [CHR 0xD0, CHR 0xB0, CHR 0xD1, CHR 0x87, CHR 0xD0, CHR 0xB5, CHR 0xD0, CHR 0xBD]
               @ [CHR 0xD0, CHR 0xBE] @ '' ''
               @ [CHR 0xD0, CHR 0xBA, CHR 0xD0, CHR 0xBA, CHR 0xD0, CHR 0xB0, CHR 0xD0, CHR 0xBB]
               @ '': '' @ s4 @ ''.'')
         \<and> renders_3f s1 1 \<and> renders_3f s2 9.75 \<and> renders_3f s3 9.75 \<and> renders_3f s4 336)
   \<and> get_message
        \<lparr>training_type = ''Running'', info_duration = Finite 1, info_distance = Finite 9.75,
       info_speed = Finite 9.75, info_calories = Some (Finite 336)\<rparr>
      = Inr ([CHR 0xD0, CHR 0xA2, CHR 0xD0, CHR 0xB8, CHR 0xD0, CHR 0xBF] @ '' ''
          @ [CHR 0xD1, CHR 0x82, CHR 0xD1, CHR 0x80, CHR 0xD0, CHR 0xB5, CHR 0xD0, CHR 0xBD]
          @ [CHR 0xD0, CHR 0xB8, CHR 0xD1, CHR 0x80, CHR 0xD0, CHR 0xBE, CHR 0xD0, CHR 0xB2]
          @ [CHR 0xD0, CHR 0xBA, CHR 0xD0, CHR 0xB8] @ '': Running; ''
          @ [CHR 0xD0, CHR 0x94, CHR 0xD0, CHR 0xBB, CHR 0xD0, CHR 0xB8, CHR 0xD1, CHR 0x82]
          @ [CHR 0xD0, CHR 0xB5, CHR 0xD0, CHR 0xBB, CHR 0xD1, CHR 0x8C, CHR 0xD0, CHR 0xBD]
          @ [CHR 0xD0, CHR 0xBE, CHR 0xD1, CHR 0x81, CHR 0xD1, CHR 0x82, CHR 0xD1, CHR 0x8C]
          @ '': 1.000 '' @ [CHR 0xD1, CHR 0x87] @ ''.; ''
          @ [CHR 0xD0, CHR 0x94, CHR 0xD0, CHR 0xB8, CHR 0xD1, CHR 0x81, CHR 0xD1, CHR 0x82]
          @ [CHR 0xD0, CHR 0xB0, CHR 0xD0, CHR 0xBD, CHR 0xD1, CHR 0x86, CHR 0xD0, CHR 0xB8]
          @ [CHR 0xD1, CHR 0x8F] @ '': 9.750 '' @ [CHR 0xD0, CHR 0xBA, CHR 0xD0, CHR 0xBC]
          @ ''; '' @ [CHR 0xD0, CHR 0xA1, CHR 0xD1, CHR 0x80] @ ''. ''
          @ [CHR 0xD1, CHR 0x81, CHR 0xD0, CHR 0xBA, CHR 0xD0, CHR 0xBE, CHR 0xD1, CHR 0x80]
          @ [CHR 0xD0, CHR 0xBE, CHR 0xD1, CHR 0x81, CHR 0xD1, CHR 0x82, CHR 0xD1, CHR 0x8C]
          @ '': 9.750 '' @ [CHR 0xD0, CHR 0xBA, CHR 0xD0, CHR 0xBC] @ ''/''
          @ [CHR 0xD1, CHR 0x87] @ ''; ''
          @ [CHR 0xD0, CHR 0x9F, CHR 0xD0, CHR 0xBE, CHR 0xD1, CHR 0x82, CHR 0xD1, CHR 0x80]
          @ [CHR 0xD0, CHR 0xB0, CHR 0xD1, CHR 0x87, CHR 0xD0, CHR 0xB5, CHR 0xD0, CHR 0xBD]
          @ [CHR 0xD0, CHR 0xBE] @ '' ''
          @ [CHR 0xD0, CHR 0xBA, CHR 0xD0, CHR 0xBA, CHR 0xD0, CHR 0xB0, CHR 0xD0, CHR 0xBB]
          @ '': 336.000.'')"
proof -
  have "is_double 1"
    unfolding is_double_def by (rule exI [of _ 1], rule exI [of _ 0], rule exI [of _ 0]) simp
  then have f1: "finite_float (Finite 1) 1"
    by (simp add: finite_float_def)
  have "is_double 9.75"
    unfolding is_double_def by (rule exI [of _ 39], rule exI [of _ 0], rule exI [of _ 2]) simp
  then have f2: "finite_float (Finite 9.75) 9.75"
    by (simp add: finite_float_def)
  have "is_double 336"
    unfolding is_double_def by (rule exI [of _ 336], rule exI [of _ 0], rule exI [of _ 0]) simp
  then have f3: "finite_float (Finite 336) 336"
    by (simp add: finite_float_def)
  have line: "get_message
        \<lparr>training_type = ''Running'', info_duration = Finite 1, info_distance = Finite 9.75,
       info_speed = Finite 9.75, info_calories = Some (Finite 336)\<rparr>
      = Inr ([CHR 0xD0, CHR 0xA2, CHR 0xD0, CHR 0xB8, CHR 0xD0, CHR 0xBF] @ '' ''
          @ [CHR 0xD1, CHR 0x82, CHR 0xD1, CHR 0x80, CHR 0xD0, CHR 0xB5, CHR 0xD0, CHR 0xBD]
          @ [CHR 0xD0, CHR 0xB8, CHR 0xD1, CHR 0x80, CHR 0xD0, CHR 0xBE, CHR 0xD0, CHR 0xB2]
          @ [CHR 0xD0, CHR 0xBA, CHR 0xD0, CHR 0xB8] @ '': Running; ''
          @ [CHR 0xD0, CHR 0x94, CHR 0xD0, CHR 0xBB, CHR 0xD0, CHR 0xB8, CHR 0xD1, CHR 0x82]
          @ [CHR 0xD0, CHR 0xB5, CHR 0xD0, CHR 0xBB, CHR 0xD1, CHR 0x8C, CHR 0xD0, CHR 0xBD]
          @ [CHR 0xD0, CHR 0xBE, CHR 0xD1, CHR 0x81, CHR 0xD1, CHR 0x82, CHR 0xD1, CHR 0x8C]
          @ '': 1.000 '' @ [CHR 0xD1, CHR 0x87] @ ''.; ''
          @ [CHR 0xD0, CHR 0x94, CHR 0xD0, CHR 0xB8, CHR 0xD1, CHR 0x81, CHR 0xD1, CHR 0x82]
          @ [CHR 0xD0, CHR 0xB0, CHR 0xD0, CHR 0xBD, CHR 0xD1, CHR 0x86, CHR 0xD0, CHR 0xB8]
          @ [CHR 0xD1, CHR 0x8F] @ '': 9.750 '' @ [CHR 0xD0, CHR 0xBA, CHR 0xD0, CHR 0xBC]
          @ ''; '' @ [CHR 0xD0, CHR 0xA1, CHR 0xD1, CHR 0x80] @ ''. ''
          @ [CHR 0xD1, CHR 0x81, CHR 0xD0, CHR 0xBA, CHR 0xD0, CHR 0xBE, CHR 0xD1, CHR 0x80]
          @ [CHR 0xD0, CHR 0xBE, CHR 0xD1, CHR 0x81, CHR 0xD1, CHR 0x82, CHR 0xD1, CHR 0x8C]
          @ '': 9.750 '' @ [CHR 0xD0, CHR 0xBA, CHR 0xD0, CHR 0xBC] @ ''/''
          @ [CHR 0xD1, CHR 0x87] @ ''; ''
          @ [CHR 0xD0, CHR 0x9F, CHR 0xD0, CHR 0xBE, CHR 0xD1, CHR 0x82, CHR 0xD1, CHR 0x80]
          @ [CHR 0xD0, CHR 0xB0, CHR 0xD1, CHR 0x87, CHR 0xD0, CHR 0xB5, CHR 0xD0, CHR 0xBD]
          @ [CHR 0xD0, CHR 0xBE] @ '' ''
          @ [CHR 0xD0, CHR 0xBA, CHR 0xD0, CHR 0xBA, CHR 0xD0, CHR 0xB0, CHR 0xD0, CHR 0xBB]
          @ '': 336.000.'')"
    by (simp add: get_message_def MESSAGE_def format_defs)
  from get_message_format [of
        "\<lparr>training_type = ''Running'', info_duration = Finite 1, info_distance = Finite 9.75,
       info_speed = Finite 9.75, info_calories = Some (Finite 336)\<rparr>"
        1 "9.75" "9.75" "Finite 336" 336] f1 f2 f3 line
  show ?thesis by simp
qed

text \<open>
  C7 as stated quotes the line with English labels and promises three fractional digits
  whatever the magnitude. For the message above the code returns the Cyrillic line, not
  the English one; and a metric that is \<^verbatim>\<open>inf\<close> (what \<^verbatim>\<open>float\<close> arithmetic gives
  once a result is too large) is rendered as \<^verbatim>\<open>inf\<close>, with no digits at all.
\<close>

theorem get_message_counterexample:
  "get_message
     \<lparr>training_type = ''Running'', info_duration = Finite 1, info_distance = Finite 9.75,
       info_speed = Finite 9.75, info_calories = Some (Finite 336)\<rparr>
   \<noteq> Inr (''Training type: Running; Duration: 1.000 h; Distance: 9.750 km; ''
           @ ''Avg speed: 9.750 km/h; Calories burned: 336.000.'')
   \<and> get_message
       \<lparr>training_type = ''Running'', info_duration = Finite 1, info_distance = Finite 9.75,
       info_speed = Finite 9.75, info_calories = Some PosInf\<rparr>
     = Inr ([CHR 0xD0, CHR 0xA2, CHR 0xD0, CHR 0xB8, CHR 0xD0, CHR 0xBF] @ '' ''
          @ [CHR 0xD1, CHR 0x82, CHR 0xD1, CHR 0x80, CHR 0xD0, CHR 0xB5, CHR 0xD0, CHR 0xBD]
          @ [CHR 0xD0, CHR 0xB8, CHR 0xD1, CHR 0x80, CHR 0xD0, CHR 0xBE, CHR 0xD0, CHR 0xB2]
          @ [CHR 0xD0, CHR 0xBA, CHR 0xD0, CHR 0xB8] @ '': Running; ''
          @ [CHR 0xD0, CHR 0x94, CHR 0xD0, CHR 0xBB, CHR 0xD0, CHR 0xB8, CHR 0xD1, CHR 0x82]
          @ [CHR 0xD0, CHR 0xB5, CHR 0xD0, CHR 0xBB, CHR 0xD1, CHR 0x8C, CHR 0xD0, CHR 0xBD]
          @ [CHR 0xD0, CHR 0xBE, CHR 0xD1, CHR 0x81, CHR 0xD1, CHR 0x82, CHR 0xD1, CHR 0x8C]
          @ '': 1.000 '' @ [CHR 0xD1, CHR 0x87] @ ''.; ''
          @ [CHR 0xD0, CHR 0x94, CHR 0xD0, CHR 0xB8, CHR 0xD1, CHR 0x81, CHR 0xD1, CHR 0x82]
          @ [CHR 0xD0, CHR 0xB0, CHR 0xD0, CHR 0xBD, CHR 0xD1, CHR 0x86, CHR 0xD0, CHR 0xB8]
          @ [CHR 0xD1, CHR 0x8F] @ '': 9.750 '' @ [CHR 0xD0, CHR 0xBA, CHR 0xD0, CHR 0xBC]
          @ ''; '' @ [CHR 0xD0, CHR 0xA1, CHR 0xD1, CHR 0x80] @ ''. ''
          @ [CHR 0xD1, CHR 0x81, CHR 0xD0, CHR 0xBA, CHR 0xD0, CHR 0xBE, CHR 0xD1, CHR 0x80]
          @ [CHR 0xD0, CHR 0xBE, CHR 0xD1, CHR 0x81, CHR 0xD1, CHR 0x82, CHR 0xD1, CHR 0x8C]
          @ '': 9.750 '' @ [CHR 0xD0, CHR 0xBA, CHR 0xD0, CHR 0xBC] @ ''/''
          @ [CHR 0xD1, CHR 0x87] @ ''; ''
          @ [CHR 0xD0, CHR 0x9F, CHR 0xD0, CHR 0xBE, CHR 0xD1, CHR 0x82, CHR 0xD1, CHR 0x80]
          @ [CHR 0xD0, CHR 0xB0, CHR 0xD1, CHR 0x87, CHR 0xD0, CHR 0xB5, CHR 0xD0, CHR 0xBD]
          @ [CHR 0xD0, CHR 0xBE] @ '' ''
          @ [CHR 0xD0, CHR 0xBA, CHR 0xD0, CHR 0xBA, CHR 0xD0, CHR 0xB0, CHR 0xD0, CHR 0xBB]
          @ '': inf.'')
   \<and> \<not> fixed_point_3 ''inf''"
  by (simp add: get_message_def MESSAGE_def format_defs inf_not_fixed_point)

section \<open>Field-count mismatch\<close>

text \<open>
  C8. For a known workout code and a value list whose length is not the number of
  fields of the class (3 for RUN, 4 for WLK, 5 for SWM), the construction raises
  \<^verbatim>\<open>TypeError\<close>; \<^verbatim>\<open>read_package\<close> lets it through, and so does the loop: the run
  ends with that exception, nothing printed.
\<close>

theorem field_count_mismatch:
  assumes "(workout_type = ''RUN'' \<and> length data \<noteq> 3)
           \<or> (workout_type = ''WLK'' \<and> length data \<noteq> 4)
           \<or> (workout_type = ''SWM'' \<and> length data \<noteq> 5)"
  shows "read_package workout_type data = ([], Inl TypeError)
         \<and> script ((workout_type, data) # rest) = ([], Inl TypeError)"
proof -
  from assms have "read_package workout_type data = ([], Inl TypeError)"
    using Running_init_mismatch [of data] SportsWalking_init_mismatch [of data]
      Swimming_init_mismatch [of data]
    by (auto simp add: read_package_def dict_training_def)
  then show ?thesis by simp
qed

text \<open>A running package one value short, a walking package one value long.\<close>

theorem field_count_mismatch_witness:
  "length [15000, 1 :: real] \<noteq> 3
   \<and> read_package ''RUN'' [15000, 1] = ([], Inl TypeError)
   \<and> script [(''RUN'', [15000, 1]), (''SWM'', [720, 1, 80, 25, 40])] = ([], Inl TypeError)
   \<and> length [9000, 1, 75, 180, 7 :: real] \<noteq> 4
   \<and> read_package ''WLK'' [9000, 1, 75, 180, 7] = ([], Inl TypeError)"
  using field_count_mismatch [of "''RUN''" "[15000, 1]" "[(''SWM'', [720, 1, 80, 25, 40])]"]
    field_count_mismatch [of "''WLK''" "[9000, 1, 75, 180, 7]" "[]"]
  by simp

section \<open>Records are not mutated\<close>

text \<open>
  C9. For every record in the store and each of \<^verbatim>\<open>get_distance\<close>,
  \<^verbatim>\<open>get_mean_speed\<close>, \<^verbatim>\<open>get_spent_calories\<close> and \<^verbatim>\<open>show_training_info\<close>, the
  record read through its reference after the call is the record read before it, with
  all its fields.
\<close>

theorem methods_leave_record_unchanged:
  assumes "load s p = Some t"
  shows "load (snd (ref_get_distance p s)) p = Some t
         \<and> load (snd (ref_get_mean_speed p s)) p = Some t
         \<and> load (snd (ref_get_spent_calories p s)) p = Some t
         \<and> load (snd (ref_show_training_info p s)) p = Some t"
proof -
  have "load (snd (ref_show_training_info p s)) p = Some t"
    using assms
    by (auto simp add: ref_show_training_info_def nth_append split: sum.splits if_splits)
  with assms show ?thesis
    by (simp add: ref_get_distance_def ref_get_mean_speed_def ref_get_spent_calories_def
          del: load.simps)
qed

text \<open>A store holding the sample running record.\<close>

theorem methods_leave_record_unchanged_witness:
  "load [TrainingObj (Running 15000 1 75)] 0 = Some (Running 15000 1 75)
   \<and> load (snd (ref_show_training_info 0 [TrainingObj (Running 15000 1 75)])) 0
       = Some (Running 15000 1 75)
   \<and> load (snd (ref_get_spent_calories 0 [TrainingObj (Running 15000 1 75)])) 0
       = Some (Running 15000 1 75)"
  using methods_leave_record_unchanged
    [of "[TrainingObj (Running 15000 1 75)]" 0 "Running 15000 1 75"]
  by simp

section \<open>The workout-type label\<close>



end
